theory Spec2Isabelle
  imports Complex_Main
begin

section \<open>The affine kernel of the C runtime: data model\<close>

text \<open>
  The development embeds \<^verbatim>\<open>src/functions/implements/neural_network/affine/affine.c\<close>:
  \<^verbatim>\<open>allocate_affine_config\<close> (bind), \<^verbatim>\<open>exec_affine\<close> and its two strategies
  \<^verbatim>\<open>exec_affine_float\<close> and \<^verbatim>\<open>exec_affine_generic\<close>.

  Conventions.
  \<^item> C \<^verbatim>\<open>int\<close> is \<^typ>\<open>int\<close>. The products of dimensions that bind stores are reduced to
    the 32 bits of a C \<^verbatim>\<open>int\<close> (\<open>c_mul\<close>): signed overflow is undefined in C, and the
    two's complement result is what compiled code stores. The index arithmetic of exec is
    not reduced: an index outside C \<^verbatim>\<open>int\<close> needs a buffer of more than \<open>2^31\<close> elements.
  \<^item> C \<^verbatim>\<open>float\<close> is a type variable \<open>'a\<close> of sort \<open>{zero,plus,times}\<close>: the kernel only
    adds and multiplies, and no law of arithmetic is assumed of \<open>+\<close> and \<open>*\<close> (floating-point
    addition is not associative), so the order of every accumulation is the code's.
  \<^item> A pointer to a data buffer is an address (\<^typ>\<open>nat\<close>); the memory maps an address
    and an element index to a cell. Two Variables with the same address share their buffer.
    C checks no bound, so a buffer has a cell at every index: a Variable owns the cells
    from 0 below the product of its shape, and the cells at the other indices of its address
    stand for the memory before and after its buffer.
\<close>

subsection \<open>Variables\<close>

text \<open>
  The type tag of a Variable. The header that declares the enumeration is not among the
  sources; the kernel only compares a tag with \<^verbatim>\<open>NN_DATA_TYPE_FLOAT\<close>, so every other tag
  is kept abstract (\<open>'t\<close>).
\<close>

datatype 't rt_variable_type = NN_DATA_TYPE_FLOAT | NN_DATA_TYPE_OTHER 't

text \<open>
  \<^verbatim>\<open>rt_list_t\<close>: a length and a C array of dimensions (fields \<^verbatim>\<open>size\<close> and \<^verbatim>\<open>data\<close>).
  The array is a function of the index: reading \<^verbatim>\<open>shape.data[i]\<close> outside \<open>[0, size)\<close>
  is not checked by the code and yields whatever the function holds there.
\<close>

record rt_list =
  size_l :: int
  data_l :: "int \<Rightarrow> int"

text \<open>\<^verbatim>\<open>rt_variable_t\<close>: fields \<^verbatim>\<open>type\<close>, \<^verbatim>\<open>shape\<close> and \<^verbatim>\<open>data\<close> (the buffer's address).\<close>

record 't rt_variable =
  vtype :: "'t rt_variable_type"
  shape :: rt_list
  data :: nat

subsection \<open>Memory\<close>

text \<open>
  A cell holds either a native float or an element in another storage format (\<open>'r\<close>).
\<close>

datatype ('a, 'r) cell = Float_cell 'a | Raw_cell 'r

type_synonym ('a, 'r) memory = "nat \<Rightarrow> int \<Rightarrow> ('a, 'r) cell"

text \<open>
  What the code does not define is a parameter of the model: the value a \<^verbatim>\<open>float\<close> read
  finds in a cell written in another format, and the conversions of the non-float formats
  (implemented by accessors that are not among the sources).
\<close>

record ('t, 'a, 'r) access_layer =
  float_of_raw :: "'r \<Rightarrow> 'a"
  decode :: "'t \<Rightarrow> ('a, 'r) cell \<Rightarrow> 'a"
  encode :: "'t \<Rightarrow> 'a \<Rightarrow> ('a, 'r) cell"

text \<open>\<^verbatim>\<open>*(p + pos)\<close> and \<^verbatim>\<open>*(p + pos) = v\<close> for \<^verbatim>\<open>float *p\<close>.\<close>

definition float_get :: "('t, 'a, 'r) access_layer \<Rightarrow> ('a, 'r) cell \<Rightarrow> 'a" where
  "float_get L c = (case c of Float_cell x \<Rightarrow> x | Raw_cell r \<Rightarrow> float_of_raw L r)"

definition load_float ::
  "('t, 'a, 'r) access_layer \<Rightarrow> ('a, 'r) memory \<Rightarrow> nat \<Rightarrow> int \<Rightarrow> 'a" where
  "load_float L s p pos = float_get L (s p pos)"

definition store_float :: "nat \<Rightarrow> int \<Rightarrow> 'a \<Rightarrow> ('a, 'r) memory \<Rightarrow> ('a, 'r) memory" where
  "store_float p pos v s = s(p := (s p)(pos := Float_cell v))"

text \<open>
  \<^verbatim>\<open>for (i = lo; i < hi; i++) body\<close>, for a body that assigns neither \<^verbatim>\<open>i\<close> nor the bound.
\<close>

definition for_loop :: "int \<Rightarrow> int \<Rightarrow> (int \<Rightarrow> 's \<Rightarrow> 's) \<Rightarrow> 's \<Rightarrow> 's" where
  "for_loop lo hi body s = fold body [lo..hi - 1] s"

text \<open>
  \<^verbatim>\<open>memset(p, 0, sizeof(float) * n)\<close>: the \<open>n\<close> floats from \<open>p\<close> become \<open>+0.0\<close> (all bits
  zero). Nothing is written for \<open>n \<le> 0\<close> (a negative \<open>n\<close> does not arise from shapes of
  non-negative dimensions).
\<close>

definition memset_float :: "nat \<Rightarrow> int \<Rightarrow> ('a::zero, 'r) memory \<Rightarrow> ('a, 'r) memory" where
  "memset_float p n s = for_loop 0 n (\<lambda>i. store_float p i 0) s"

subsection \<open>Typed access layer\<close>

type_synonym ('t, 'a, 'r) rt_variable_getter =
  "'t rt_variable \<Rightarrow> int \<Rightarrow> ('a, 'r) memory \<Rightarrow> 'a"

type_synonym ('t, 'a, 'r) rt_variable_setter =
  "'t rt_variable \<Rightarrow> int \<Rightarrow> 'a \<Rightarrow> ('a, 'r) memory \<Rightarrow> ('a, 'r) memory"

text \<open>
  \<^verbatim>\<open>select_getter\<close> and \<^verbatim>\<open>select_setter\<close> belong to the utilities, which are not among the
  sources. The spec (4.1): the reader and the writer are resolved from the Variable's type
  tag alone; a read translates the native storage of the element at a flat index into a
  float, a write translates a float into the native storage of that element. For the float
  tag the native storage is the float itself.
\<close>

text \<open>
  Modelled from the spec: the translation a reader of tag \<open>ty\<close> applies to the cell it reads
  (for the float tag, the float read of the cell).
\<close>

definition cell_getter ::
  "('t, 'a, 'r) access_layer \<Rightarrow> 't rt_variable_type \<Rightarrow> ('a, 'r) cell \<Rightarrow> 'a" where
  "cell_getter L ty =
     (case ty of NN_DATA_TYPE_FLOAT \<Rightarrow> float_get L | NN_DATA_TYPE_OTHER t \<Rightarrow> decode L t)"

text \<open>
  Modelled from the spec: the translation a writer of tag \<open>ty\<close> applies to the float it
  stores (for the float tag, the float itself).
\<close>

definition cell_setter ::
  "('t, 'a, 'r) access_layer \<Rightarrow> 't rt_variable_type \<Rightarrow> 'a \<Rightarrow> ('a, 'r) cell" where
  "cell_setter L ty =
     (case ty of NN_DATA_TYPE_FLOAT \<Rightarrow> Float_cell | NN_DATA_TYPE_OTHER t \<Rightarrow> encode L t)"

text \<open>
  Modelled from the spec: \<^verbatim>\<open>select_getter\<close> (utilities, not among the sources). The reader
  is chosen by the tag of the Variable it is selected for, and reads the element at a flat
  index of the buffer of the Variable it is called with.
\<close>

definition select_getter ::
  "('t, 'a, 'r) access_layer \<Rightarrow> 't rt_variable \<Rightarrow> ('t, 'a, 'r) rt_variable_getter" where
  "select_getter L v = (\<lambda>v' pos s. cell_getter L (vtype v) (s (data v') pos))"

text \<open>
  Modelled from the spec: \<^verbatim>\<open>select_setter\<close> (utilities, not among the sources). The writer
  is chosen by the tag of the Variable it is selected for, and writes the element at a flat
  index of the buffer of the Variable it is called with; it writes nothing else.
\<close>

definition select_setter ::
  "('t, 'a, 'r) access_layer \<Rightarrow> 't rt_variable \<Rightarrow> ('t, 'a, 'r) rt_variable_setter" where
  "select_setter L v =
     (\<lambda>v' pos x s. s(data v' := (s (data v'))(pos := cell_setter L (vtype v) x)))"

subsection \<open>Products of C int\<close>

text \<open>
  The value of a C \<^verbatim>\<open>int\<close> that holds the mathematical result \<open>x\<close>: \<open>x\<close> itself when it
  fits in 32 bits, and its two's complement wrap-around otherwise. \<open>c_mul\<close> is the
  multiplication \<^verbatim>\<open>a * b\<close> and the assignment \<^verbatim>\<open>a *= b\<close> of two \<^verbatim>\<open>int\<close>.
\<close>

definition c_int :: "int \<Rightarrow> int" where
  "c_int x = (x + 2147483648) mod 4294967296 - 2147483648"

definition c_mul :: "int \<Rightarrow> int \<Rightarrow> int" where
  "c_mul a b = c_int (a * b)"

text \<open>
  Modelled from the spec: \<^verbatim>\<open>calc_shape_size\<close> (utilities, not among the sources), the
  product of the dimensions of a shape (4.2: \<open>output_size = product(output.shape)\<close>), computed
  in C \<^verbatim>\<open>int\<close> as the result is stored in one.
\<close>

definition calc_shape_size :: "rt_list \<Rightarrow> int" where
  "calc_shape_size sh = for_loop 0 (size_l sh) (\<lambda>i n. c_mul n (data_l sh i)) 1"

section \<open>The kernel\<close>

subsection \<open>Configuration and resolved state\<close>

record affine_config_t =
  base_axis :: int

text \<open>
  \<^verbatim>\<open>rt_function_t\<close>, as far as the kernel reads it. \<^verbatim>\<open>num_of_inputs\<close> and
  \<^verbatim>\<open>num_of_outputs\<close> are the lengths of the two arrays.
\<close>

record 't rt_function =
  inputs :: "'t rt_variable list"
  outputs :: "'t rt_variable list"
  config :: affine_config_t

definition num_of_inputs :: "'t rt_function \<Rightarrow> int" where
  "num_of_inputs f = int (length (inputs f))"

definition num_of_outputs :: "'t rt_function \<Rightarrow> int" where
  "num_of_outputs f = int (length (outputs f))"

text \<open>
  \<^verbatim>\<open>struct affine_impl\<close>. The pointer \<^verbatim>\<open>bias\<close> and \<^verbatim>\<open>get_bias\<close> are assigned together
  (lines 72 to 77): \<open>None\<close> is the null pointer, which leaves \<^verbatim>\<open>get_bias\<close> unassigned.
  The fields \<^verbatim>\<open>config\<close> and \<^verbatim>\<open>output\<close> are \<open>impl_config\<close> and \<open>output_var\<close> here.
\<close>

record ('t, 'a, 'r) affine_impl =
  impl_config :: affine_config_t
  input :: "'t rt_variable"
  get_input :: "('t, 'a, 'r) rt_variable_getter"
  weight :: "'t rt_variable"
  get_weight :: "('t, 'a, 'r) rt_variable_getter"
  bias :: "('t rt_variable \<times> ('t, 'a, 'r) rt_variable_getter) option"
  output_var :: "'t rt_variable"
  output_size :: int
  set_output :: "('t, 'a, 'r) rt_variable_setter"
  get_output :: "('t, 'a, 'r) rt_variable_getter"
  base_loop_size :: int
  input_loop_size :: int
  output_loop_size :: int

text \<open>
  A failed \<^verbatim>\<open>assert\<close> aborts the process: the two assertions of bind, in a build that
  keeps assertions.
\<close>

datatype error = Assert_num_of_inputs | Assert_num_of_outputs

subsection \<open>Bind\<close>

text \<open>
  \<^verbatim>\<open>allocate_affine_config\<close> (lines 48 to 98). The reallocation of the configuration block
  is memory layout and is left out; the resolved state is the returned record. The source
  reads \<^verbatim>\<open>config->base_axis\<close> from the configuration the function was declared with.
  The three extents are fields of type \<^verbatim>\<open>int\<close>, multiplied in place by \<^verbatim>\<open>*=\<close>.
\<close>

definition allocate_affine_config ::
  "('t, 'a, 'r) access_layer \<Rightarrow> 't rt_function \<Rightarrow> error + ('t, 'a, 'r) affine_impl" where
  "allocate_affine_config L f =
     (if \<not> (num_of_inputs f = 2 \<or> num_of_inputs f = 3) then Inl Assert_num_of_inputs
      else if \<not> (num_of_outputs f = 1) then Inl Assert_num_of_outputs
      else
        let input_v = inputs f ! 0;
            weight_v = inputs f ! 1;
            output_v = outputs f ! 0;
            base_axis = base_axis (config f)
        in Inr \<lparr>
             impl_config = config f,
             input = input_v,
             get_input = select_getter L input_v,
             weight = weight_v,
             get_weight = select_getter L weight_v,
             bias = (if num_of_inputs f > 2
                     then Some (inputs f ! 2, select_getter L (inputs f ! 2)) else None),
             output_var = output_v,
             output_size = calc_shape_size (shape output_v),
             set_output = select_setter L output_v,
             get_output = select_getter L output_v,
             base_loop_size =
               for_loop 0 base_axis (\<lambda>i n. c_mul n (data_l (shape input_v) i)) 1,
             input_loop_size =
               for_loop base_axis (size_l (shape input_v))
                 (\<lambda>i n. c_mul n (data_l (shape input_v) i)) 1,
             output_loop_size =
               for_loop base_axis (size_l (shape output_v))
                 (\<lambda>i n. c_mul n (data_l (shape output_v) i)) 1
           \<rparr>)"

subsection \<open>Exec\<close>

text \<open>\<^verbatim>\<open>exec_affine_float\<close> (lines 116 to 159): the Direct strategy, on raw float buffers.\<close>

definition exec_affine_float ::
  "('t, 'a::{zero,plus,times}, 'r) access_layer \<Rightarrow> ('t, 'a, 'r) affine_impl \<Rightarrow>
   ('a, 'r) memory \<Rightarrow> ('a, 'r) memory" where
  "exec_affine_float L pimpl s0 =
     (let input_p = data (input pimpl);
          weight_p = data (weight pimpl);
          output_p = data (output_var pimpl)
      in for_loop 0 (base_loop_size pimpl) (\<lambda>k s.
           let output_offset = k * output_loop_size pimpl;
               input_offset = k * input_loop_size pimpl;
               s' = for_loop 0 (input_loop_size pimpl) (\<lambda>j s.
                      let ipos = input_offset + j;
                          weight_offset = j * output_loop_size pimpl;
                          u = load_float L s input_p ipos
                      in for_loop 0 (output_loop_size pimpl) (\<lambda>i s.
                           let opos = output_offset + i;
                               wpos = weight_offset + i;
                               w = load_float L s weight_p wpos;
                               value = load_float L s output_p opos
                           in store_float output_p opos (value + u * w) s) s) s
           in (case bias pimpl of
                 None \<Rightarrow> s'
               | Some (bias_v, _) \<Rightarrow>
                   for_loop 0 (output_loop_size pimpl) (\<lambda>i s.
                     let opos = output_offset + i;
                         bpos = i
                     in store_float output_p opos
                          (load_float L s output_p opos + load_float L s (data bias_v) bpos) s) s'))
         (memset_float output_p (output_size pimpl) s0))"

text \<open>
  \<^verbatim>\<open>exec_affine_generic\<close> (lines 161 to 203): the Generic strategy, every access through
  the accessors resolved at bind.
\<close>

definition exec_affine_generic ::
  "('t, 'a::{zero,plus,times}, 'r) affine_impl \<Rightarrow> ('a, 'r) memory \<Rightarrow> ('a, 'r) memory" where
  "exec_affine_generic pimpl s0 =
     for_loop 0 (base_loop_size pimpl) (\<lambda>k s.
       let output_offset = k * output_loop_size pimpl;
           input_offset = k * input_loop_size pimpl;
           s' = for_loop 0 (input_loop_size pimpl) (\<lambda>j s.
                  let ipos = input_offset + j;
                      weight_offset = j * output_loop_size pimpl;
                      u = get_input pimpl (input pimpl) ipos s
                  in for_loop 0 (output_loop_size pimpl) (\<lambda>i s.
                       let opos = output_offset + i;
                           wpos = weight_offset + i;
                           w = get_weight pimpl (weight pimpl) wpos s;
                           value = get_output pimpl (output_var pimpl) opos s
                       in set_output pimpl (output_var pimpl) opos (value + u * w) s) s) s
       in (case bias pimpl of
             None \<Rightarrow> s'
           | Some (bias_v, get_bias) \<Rightarrow>
               for_loop 0 (output_loop_size pimpl) (\<lambda>i s.
                 let opos = output_offset + i;
                     bpos = i
                 in set_output pimpl (output_var pimpl) opos
                      (get_output pimpl (output_var pimpl) opos s + get_bias bias_v bpos s) s) s'))
     (for_loop 0 (output_size pimpl) (\<lambda>i s. set_output pimpl (output_var pimpl) i 0 s) s0)"

text \<open>
  \<^verbatim>\<open>exec_affine\<close> (lines 104 to 114). The condition is the expression between \<^verbatim>\<open>if (\<close>
  and \<^verbatim>\<open>{\<close> as the source writes it (the source lacks the parenthesis that closes the
  \<^verbatim>\<open>if\<close>; the expression itself is complete). \<open>strategy\<close> names the callee chosen.
\<close>

datatype strategy = Direct | Generic

definition select_strategy :: "('t, 'a, 'r) affine_impl \<Rightarrow> strategy" where
  "select_strategy pimpl =
     (if vtype (input pimpl) = NN_DATA_TYPE_FLOAT \<and>
         vtype (output_var pimpl) = NN_DATA_TYPE_FLOAT \<and>
         vtype (weight pimpl) = NN_DATA_TYPE_FLOAT \<and>
         (case bias pimpl of None \<Rightarrow> True | Some (bias_v, _) \<Rightarrow> vtype bias_v = NN_DATA_TYPE_FLOAT)
      then Direct else Generic)"

definition exec_affine ::
  "('t, 'a::{zero,plus,times}, 'r) access_layer \<Rightarrow> ('t, 'a, 'r) affine_impl \<Rightarrow>
   ('a, 'r) memory \<Rightarrow> ('a, 'r) memory" where
  "exec_affine L pimpl s =
     (case select_strategy pimpl of
        Direct \<Rightarrow> exec_affine_float L pimpl s
      | Generic \<Rightarrow> exec_affine_generic pimpl s)"

section \<open>The result the spec states\<close>




text \<open>
  The Variables a kernel is bound to, the bias only when present, and the condition of the
  Direct strategy in the words of the spec: all of them use the Float32 representation.
\<close>

definition bound_variables :: "('t, 'a, 'r) affine_impl \<Rightarrow> 't rt_variable list" where
  "bound_variables p =
     input p # weight p # output_var p # (case bias p of None \<Rightarrow> [] | Some (b, g) \<Rightarrow> [b])"

definition uniformly_float32 :: "('t, 'a, 'r) affine_impl \<Rightarrow> bool" where
  "uniformly_float32 p \<longleftrightarrow> (\<forall>v \<in> set (bound_variables p). vtype v = NN_DATA_TYPE_FLOAT)"

text \<open>
  \<open>product(shape)\<close>, and the product of the leading dimensions \<open>shape[0 : b]\<close> (all of them
  when \<open>b\<close> exceeds the rank).
\<close>

definition shape_product :: "rt_list \<Rightarrow> int" where
  "shape_product sh = prod_list (map (data_l sh) [0..size_l sh - 1])"

definition leading_product :: "rt_list \<Rightarrow> int \<Rightarrow> int" where
  "leading_product sh b = prod_list (map (data_l sh) [0..min b (size_l sh) - 1])"

text \<open>
  No overflow: a value fits a C \<^verbatim>\<open>int\<close>, and every partial product of the dimensions
  \<open>d lo, ..., d (hi - 1)\<close>, multiplied in this order, fits one.
\<close>

definition fits_c_int :: "int \<Rightarrow> bool" where
  "fits_c_int x \<longleftrightarrow> - 2147483648 \<le> x \<and> x \<le> 2147483647"

definition no_overflow :: "(int \<Rightarrow> int) \<Rightarrow> int \<Rightarrow> int \<Rightarrow> bool" where
  "no_overflow d lo hi \<longleftrightarrow> (\<forall>j \<in> set [lo..hi - 1]. fits_c_int (prod_list (map d [lo..j])))"


section \<open>Both strategies as one loop nest\<close>

text \<open>
  Auxiliary definitions for the proofs. Every access of either strategy reads or writes
  one cell through a conversion that depends on the type tag only; \<open>wiring\<close> collects the
  addresses, the conversions and the extents, and \<open>loop_nest\<close> is the loop nest over them,
  cut into its stages. \<open>exec_affine_float\<close> and \<open>exec_affine_generic\<close> are proved equal to
  \<open>loop_nest\<close> on their wirings below.
\<close>

definition poke :: "nat \<Rightarrow> int \<Rightarrow> ('a, 'r) cell \<Rightarrow> ('a, 'r) memory \<Rightarrow> ('a, 'r) memory" where
  "poke p q c s = s(p := (s p)(q := c))"

record ('a, 'r) wiring =
  in_p :: nat
  in_get :: "('a, 'r) cell \<Rightarrow> 'a"
  w_p :: nat
  w_get :: "('a, 'r) cell \<Rightarrow> 'a"
  b_opt :: "(nat \<times> (('a, 'r) cell \<Rightarrow> 'a)) option"
  out_p :: nat
  out_get :: "('a, 'r) cell \<Rightarrow> 'a"
  out_put :: "'a \<Rightarrow> ('a, 'r) cell"
  n_out :: int
  n_base :: int
  n_in :: int
  n_ol :: int

definition clear_stage :: "('a::{zero,plus,times}, 'r) wiring \<Rightarrow> ('a, 'r) memory \<Rightarrow> ('a, 'r) memory" where
  "clear_stage W s = for_loop 0 (n_out W) (\<lambda>i. poke (out_p W) i (out_put W 0)) s"

definition mac_stage :: "('a::{zero,plus,times}, 'r) wiring \<Rightarrow> int \<Rightarrow> int \<Rightarrow> ('a, 'r) memory \<Rightarrow> ('a, 'r) memory" where
  "mac_stage W k j s =
     for_loop 0 (n_ol W) (\<lambda>i t. poke (out_p W) (k * n_ol W + i)
        (out_put W (out_get W (t (out_p W) (k * n_ol W + i)) +
           in_get W (s (in_p W) (k * n_in W + j)) * w_get W (t (w_p W) (j * n_ol W + i)))) t) s"

definition acc_stage :: "('a::{zero,plus,times}, 'r) wiring \<Rightarrow> int \<Rightarrow> ('a, 'r) memory \<Rightarrow> ('a, 'r) memory" where
  "acc_stage W k s = for_loop 0 (n_in W) (mac_stage W k) s"









section \<open>Concrete kernels\<close>

text \<open>
  The end-to-end scenario of the spec: input of shape \<open>[2, 3]\<close> at address 0, weight of
  shape \<open>[3, 4]\<close> at address 1, bias of shape \<open>[4]\<close> at address 2, output of shape \<open>[2, 4]\<close>
  at address 3, \<open>base_axis = 1\<close>, all float. The output buffer holds 9 in each element
  before exec.
\<close>

definition demo_layer :: "(unit, real, unit) access_layer" where
  "demo_layer = \<lparr>float_of_raw = (\<lambda>_. 0), decode = (\<lambda>_ _. 0), encode = (\<lambda>_ _. Raw_cell ())\<rparr>"

definition shape_of :: "int list \<Rightarrow> rt_list" where
  "shape_of ds = \<lparr>size_l = int (length ds),
                  data_l = (\<lambda>i. if 0 \<le> i \<and> i < int (length ds) then ds ! nat i else 0)\<rparr>"

definition float_variable :: "int list \<Rightarrow> nat \<Rightarrow> unit rt_variable" where
  "float_variable ds p = \<lparr>vtype = NN_DATA_TYPE_FLOAT, shape = shape_of ds, data = p\<rparr>"

definition buffer_of :: "real list \<Rightarrow> int \<Rightarrow> (real, unit) cell" where
  "buffer_of xs = (\<lambda>i. if 0 \<le> i \<and> i < int (length xs) then Float_cell (xs ! nat i) else Raw_cell ())"

definition scenario :: "unit rt_function" where
  "scenario = \<lparr>inputs = [float_variable [2, 3] 0, float_variable [3, 4] 1, float_variable [4] 2],
                outputs = [float_variable [2, 4] 3], config = \<lparr>base_axis = 1\<rparr>\<rparr>"

definition scenario_impl :: "(unit, real, unit) affine_impl" where
  "scenario_impl =
     \<lparr>impl_config = \<lparr>base_axis = 1\<rparr>,
      input = float_variable [2, 3] 0, get_input = select_getter demo_layer (float_variable [2, 3] 0),
      weight = float_variable [3, 4] 1, get_weight = select_getter demo_layer (float_variable [3, 4] 1),
      bias = Some (float_variable [4] 2, select_getter demo_layer (float_variable [4] 2)),
      output_var = float_variable [2, 4] 3, output_size = 8,
      set_output = select_setter demo_layer (float_variable [2, 4] 3),
      get_output = select_getter demo_layer (float_variable [2, 4] 3),
      base_loop_size = 2, input_loop_size = 3, output_loop_size = 4\<rparr>"

definition scenario_memory :: "(real, unit) memory" where
  "scenario_memory =
     (\<lambda>_. buffer_of [])
       (0 := buffer_of [1, 2, 3, 4, 5, 6],
        1 := buffer_of [1, 0, 0, 0, 0, 1, 0, 0, 0, 0, 1, 0],
        2 := buffer_of [1, 1, 1, 1],
        3 := buffer_of [9, 9, 9, 9, 9, 9, 9, 9])"



text \<open>The scenario with a weight in another storage format.\<close>

definition fixed_variable :: "int list \<Rightarrow> nat \<Rightarrow> unit rt_variable" where
  "fixed_variable ds p = \<lparr>vtype = NN_DATA_TYPE_OTHER (), shape = shape_of ds, data = p\<rparr>"

definition mixed_impl :: "(unit, real, unit) affine_impl" where
  "mixed_impl = scenario_impl\<lparr>weight := fixed_variable [3, 4] 1,
       get_weight := select_getter demo_layer (fixed_variable [3, 4] 1)\<rparr>"





text \<open>
  Ill-formed bindings: a weight of 7 and a bias of 5 elements; \<open>base_axis\<close> 5 and \<open>-1\<close> on
  an input of rank 2; the scenario with an output of shape \<open>[1, 4]\<close>, whose two rows do not
  fit its 4 elements; one input; two outputs.
\<close>

definition mismatched :: "unit rt_function" where
  "mismatched = \<lparr>inputs = [float_variable [2, 3] 0, float_variable [7] 1, float_variable [5] 2],
                  outputs = [float_variable [2, 4] 3], config = \<lparr>base_axis = 1\<rparr>\<rparr>"

definition mismatched_impl :: "(unit, real, unit) affine_impl" where
  "mismatched_impl =
     scenario_impl\<lparr>weight := float_variable [7] 1,
       get_weight := select_getter demo_layer (float_variable [7] 1),
       bias := Some (float_variable [5] 2, select_getter demo_layer (float_variable [5] 2))\<rparr>"







section \<open>Loops\<close>


lemma for_loop_unroll:
  "for_loop lo hi body s = (if lo < hi then for_loop (lo + 1) hi body (body lo s) else s)"
  by (simp add: for_loop_def upto_rec1)




lemma for_loop_cong:
  assumes "\<And>i t. lo \<le> i \<Longrightarrow> i < hi \<Longrightarrow> f i t = g i t"
  shows "for_loop lo hi f s = for_loop lo hi g s"
  unfolding for_loop_def by (rule fold_cong) (use assms in auto)






section \<open>Memory writes\<close>








section \<open>The strategies are the loop nest\<close>






section \<open>The stages\<close>



















section \<open>The loop nest\<close>













lemma clear_stage_bias_free [simp]: "clear_stage (W\<lparr>b_opt := bo\<rparr>) = clear_stage W"
  by (simp add: clear_stage_def fun_eq_iff)

lemma mac_stage_bias_free: "mac_stage (W\<lparr>b_opt := bo\<rparr>) = mac_stage W"
  by (intro ext) (simp add: mac_stage_def)

lemma acc_stage_bias_free [simp]: "acc_stage (W\<lparr>b_opt := bo\<rparr>) = acc_stage W"
  by (intro ext) (simp add: acc_stage_def mac_stage_bias_free)

lemma select_strategy_Direct:
  "select_strategy p = Direct \<longleftrightarrow>
     vtype (input p) = NN_DATA_TYPE_FLOAT \<and> vtype (output_var p) = NN_DATA_TYPE_FLOAT \<and>
     vtype (weight p) = NN_DATA_TYPE_FLOAT \<and>
     (case bias p of None \<Rightarrow> True | Some (b, g) \<Rightarrow> vtype b = NN_DATA_TYPE_FLOAT)"
  by (simp add: select_strategy_def)









section \<open>Bind\<close>

lemma bound_operands:
  assumes "allocate_affine_config L f = Inr p"
  shows "input p = inputs f ! 0" and "weight p = inputs f ! 1" and "output_var p = outputs f ! 0"
    and "bias p = (if num_of_inputs f > 2
                   then Some (inputs f ! 2, select_getter L (inputs f ! 2)) else None)"
    and "impl_config p = config f"
  using assms by (auto simp: allocate_affine_config_def Let_def split: if_splits)

lemma bound_extents:
  assumes "allocate_affine_config L f = Inr p"
  shows "output_size p = calc_shape_size (shape (outputs f ! 0))"
    and "base_loop_size p =
           for_loop 0 (base_axis (config f)) (\<lambda>i n. c_mul n (data_l (shape (inputs f ! 0)) i)) 1"
    and "input_loop_size p =
           for_loop (base_axis (config f)) (size_l (shape (inputs f ! 0)))
             (\<lambda>i n. c_mul n (data_l (shape (inputs f ! 0)) i)) 1"
    and "output_loop_size p =
           for_loop (base_axis (config f)) (size_l (shape (outputs f ! 0)))
             (\<lambda>i n. c_mul n (data_l (shape (outputs f ! 0)) i)) 1"
  using assms by (auto simp: allocate_affine_config_def Let_def split: if_splits)

lemma bind_succeeds:
  assumes "num_of_inputs f = 2 \<or> num_of_inputs f = 3" and "num_of_outputs f = 1"
  shows "\<exists>p. allocate_affine_config L f = Inr p"
  using assms by (simp add: allocate_affine_config_def Let_def)

lemma c_int_fits: "fits_c_int x \<Longrightarrow> c_int x = x"
  by (simp add: c_int_def fits_c_int_def)

lemma wrap_mult:
  fixes x y k m :: int
  shows "(((x + k) mod m - k) * y + k) mod m = (x * y + k) mod m"
proof -
  have "((x + k) mod m - k) mod m = (x + k - k) mod m"
    by (rule mod_diff_left_eq)
  then have "((x + k) mod m - k) mod m = x mod m" by simp
  then have "((x + k) mod m - k) * y mod m = x * y mod m"
    by (rule mod_mult_cong) (rule refl)
  then show ?thesis
    by (rule mod_add_cong) (rule refl)
qed

lemma c_int_mult_left: "c_int (c_int x * y) = c_int (x * y)"
  unfolding c_int_def by (simp only: wrap_mult)

lemma c_int_idem: "c_int (c_int x) = c_int x"
  using c_int_mult_left [of x 1] by simp

lemma fold_c_mul:
  "c_int a = a \<Longrightarrow> fold (\<lambda>i n. c_mul n (d i)) js a = c_int (a * prod_list (map d js))"
proof (induction js arbitrary: a)
  case Nil
  then show ?case by simp
next
  case (Cons j js)
  have "fold (\<lambda>i n. c_mul n (d i)) js (c_mul a (d j)) =
        c_int (c_mul a (d j) * prod_list (map d js))"
    by (rule Cons.IH) (simp add: c_mul_def c_int_idem)
  then show ?case by (simp add: c_mul_def c_int_mult_left mult.assoc)
qed

lemma for_loop_product:
  "for_loop lo hi (\<lambda>i n. c_mul n (d i)) 1 = c_int (prod_list (map d [lo..hi - 1]))"
  using fold_c_mul [of 1 d "[lo..hi - 1]"] by (simp add: for_loop_def c_int_def)

lemma no_overflow_product:
  assumes "no_overflow d lo hi"
  shows "fits_c_int (prod_list (map d [lo..hi - 1]))"
proof (cases "lo \<le> hi - 1")
  case True
  then have "hi - 1 \<in> set [lo..hi - 1]" by simp
  then show ?thesis using assms unfolding no_overflow_def by blast
next
  case False
  then show ?thesis by (simp add: fits_c_int_def)
qed

lemma for_loop_product_exact:
  "no_overflow d lo hi \<Longrightarrow>
   for_loop lo hi (\<lambda>i n. c_mul n (d i)) 1 = prod_list (map d [lo..hi - 1])"
  by (simp add: for_loop_product c_int_fits no_overflow_product)

lemma upto_concat:
  fixes b n :: int
  assumes "0 \<le> b" and "b \<le> n"
  shows "[0..n - 1] = [0..b - 1] @ [b..n - 1]"
proof (cases "b = n")
  case True
  then show ?thesis by simp
next
  case False
  then show ?thesis using assms upto_split1 [of 0 b "n - 1"] by simp
qed

lemma calc_shape_size_product: "calc_shape_size sh = c_int (shape_product sh)"
  by (simp add: calc_shape_size_def shape_product_def for_loop_product)

lemma bound_products:
  assumes "allocate_affine_config L f = Inr p"
  shows "base_loop_size p =
           c_int (prod_list (map (data_l (shape (input p))) [0..base_axis (config f) - 1]))"
    and "input_loop_size p =
           c_int (prod_list (map (data_l (shape (input p)))
             [base_axis (config f)..size_l (shape (input p)) - 1]))"
    and "output_loop_size p =
           c_int (prod_list (map (data_l (shape (output_var p)))
             [base_axis (config f)..size_l (shape (output_var p)) - 1]))"
    and "output_size p = c_int (shape_product (shape (output_var p)))"
proof -
  have ops: "inputs f ! 0 = input p" "outputs f ! 0 = output_var p"
    using bound_operands [OF assms] by simp_all
  show "base_loop_size p =
           c_int (prod_list (map (data_l (shape (input p))) [0..base_axis (config f) - 1]))"
    and "input_loop_size p =
           c_int (prod_list (map (data_l (shape (input p)))
             [base_axis (config f)..size_l (shape (input p)) - 1]))"
    and "output_loop_size p =
           c_int (prod_list (map (data_l (shape (output_var p)))
             [base_axis (config f)..size_l (shape (output_var p)) - 1]))"
    and "output_size p = c_int (shape_product (shape (output_var p)))"
    using bound_extents [OF assms]
    by (simp_all add: for_loop_product ops calc_shape_size_product)
qed


lemma output_shape_product:
  assumes "0 \<le> b"
  shows "shape_product sh =
           leading_product sh b *
           (if b \<le> size_l sh then prod_list (map (data_l sh) [b..size_l sh - 1]) else 1)"
proof (cases "b \<le> size_l sh")
  case True
  then show ?thesis
    using upto_concat [OF assms True]
    by (simp add: leading_product_def shape_product_def min_def)
next
  case False
  then show ?thesis by (simp add: leading_product_def shape_product_def min_def)
qed

lemma bound_output_product:
  assumes "allocate_affine_config L f = Inr p"
    and "0 \<le> base_axis (config f)"
    and lead: "leading_product (shape (output_var p)) (base_axis (config f)) = base_loop_size p"
    and fit: "no_overflow (data_l (shape (output_var p))) (base_axis (config f))
                (size_l (shape (output_var p)))"
  shows "base_loop_size p * output_loop_size p = shape_product (shape (output_var p))"
proof -
  have "output_loop_size p =
        prod_list (map (data_l (shape (output_var p)))
          [base_axis (config f)..size_l (shape (output_var p)) - 1])"
    using no_overflow_product [OF fit] by (simp add: bound_products(3) [OF assms(1)] c_int_fits)
  then show ?thesis
    using output_shape_product [OF assms(2), of "shape (output_var p)"] lead
    by (cases "base_axis (config f) \<le> size_l (shape (output_var p))") simp_all
qed


text \<open>
  The rows fit the zero-initialised elements, with equality, when the leading dimensions of
  the output multiply to \<open>base_loop_size\<close> and no product of the output's dimensions
  overflows.
\<close>

lemma bound_rows_fit:
  assumes "allocate_affine_config L f = Inr p"
    and "0 \<le> base_axis (config f)"
    and "leading_product (shape (output_var p)) (base_axis (config f)) = base_loop_size p"
    and "no_overflow (data_l (shape (output_var p))) (base_axis (config f))
           (size_l (shape (output_var p)))"
    and "fits_c_int (shape_product (shape (output_var p)))"
  shows "base_loop_size p * output_loop_size p = output_size p"
  using bound_output_product [OF assms(1-4)] assms(5)
  by (simp add: bound_products(4) [OF assms(1)] c_int_fits)

section \<open>The scenario\<close>

lemma scenario_bound: "allocate_affine_config demo_layer scenario = Inr scenario_impl"
  by (simp add: allocate_affine_config_def scenario_def scenario_impl_def num_of_inputs_def
      num_of_outputs_def Let_def for_loop_unroll float_variable_def shape_of_def calc_shape_size_def c_mul_def c_int_def)






lemma wrapped_extent:
  "for_loop 0 2 (\<lambda>i n. c_mul n (data_l (shape_of [65536, 65536]) i)) 1 = 0"
  "\<not> no_overflow (data_l (shape_of [65536, 65536])) 0 2"
  by (simp_all add: for_loop_unroll shape_of_def c_mul_def c_int_def no_overflow_def
      fits_c_int_def upto.simps)




lemma mismatched_counts:
  "calc_shape_size (shape_of [7]) = 7" "calc_shape_size (shape_of [5]) = 5"
  by (simp_all add: calc_shape_size_def shape_of_def for_loop_unroll c_mul_def c_int_def)

section \<open>The claims\<close>





text \<open>
  C3. exec takes the Direct strategy exactly when the input, the weight, the output and the
  bias, if one is bound, are tagged Float32, and the Generic strategy in every other case.
  The witness is the scenario (Direct) and the scenario with a weight in another format
  (Generic).
\<close>

theorem exec_affine_dispatch:
  "(select_strategy p = Direct \<longleftrightarrow> uniformly_float32 p) \<and>
   (select_strategy p = Generic \<longleftrightarrow> \<not> uniformly_float32 p) \<and>
   exec_affine L p s =
     (if uniformly_float32 p then exec_affine_float L p s else exec_affine_generic p s)"
proof -
  have 1: "select_strategy p = Direct \<longleftrightarrow> uniformly_float32 p"
    by (auto simp: select_strategy_Direct uniformly_float32_def bound_variables_def
        split: option.splits)
  have 2: "select_strategy p = Generic \<longleftrightarrow> \<not> uniformly_float32 p"
    using 1 by (cases "select_strategy p") simp_all
  show ?thesis
    using 1 2 by (cases "select_strategy p") (simp_all add: exec_affine_def)
qed

theorem exec_affine_dispatch_witness:
  "uniformly_float32 scenario_impl \<and> select_strategy scenario_impl = Direct \<and>
   exec_affine demo_layer scenario_impl scenario_memory =
     exec_affine_float demo_layer scenario_impl scenario_memory \<and>
   \<not> uniformly_float32 mixed_impl \<and> select_strategy mixed_impl = Generic \<and>
   exec_affine demo_layer mixed_impl scenario_memory = exec_affine_generic mixed_impl scenario_memory"
proof -
  have a: "uniformly_float32 scenario_impl"
    by (simp add: uniformly_float32_def bound_variables_def scenario_impl_def float_variable_def)
  have b: "\<not> uniformly_float32 mixed_impl"
    by (simp add: uniformly_float32_def bound_variables_def mixed_impl_def scenario_impl_def
        fixed_variable_def)
  show ?thesis
    using exec_affine_dispatch [of scenario_impl demo_layer scenario_memory]
      exec_affine_dispatch [of mixed_impl demo_layer scenario_memory] a b
    by simp
qed



text \<open>
  C5, as the code has it. Bind compares no element count: whether it succeeds, and the
  extents and \<open>output_size\<close> it stores, do not depend on the weight and the bias it is given.
  Replacing them by any other Variables (the same number of inputs, the same input) gives a
  resolved state with the same extents.
\<close>

theorem bind_ignores_weight_and_bias:
  assumes "allocate_affine_config L f = Inr p"
    and "length ws = length (inputs f)" and "ws ! 0 = inputs f ! 0"
  shows "\<exists>p'. allocate_affine_config L (f\<lparr>inputs := ws\<rparr>) = Inr p' \<and>
              base_loop_size p' = base_loop_size p \<and> input_loop_size p' = input_loop_size p \<and>
              output_loop_size p' = output_loop_size p \<and> output_size p' = output_size p"
proof -
  have a: "num_of_inputs f = 2 \<or> num_of_inputs f = 3" "num_of_outputs f = 1"
    using assms(1) by (auto simp: allocate_affine_config_def split: if_splits)
  then have "num_of_inputs (f\<lparr>inputs := ws\<rparr>) = 2 \<or> num_of_inputs (f\<lparr>inputs := ws\<rparr>) = 3"
    "num_of_outputs (f\<lparr>inputs := ws\<rparr>) = 1"
    using assms(2) by (simp_all add: num_of_inputs_def num_of_outputs_def)
  then obtain p' where p': "allocate_affine_config L (f\<lparr>inputs := ws\<rparr>) = Inr p'"
    using bind_succeeds by blast
  show ?thesis
    using p' bound_extents [OF p'] bound_extents [OF assms(1)] assms(3) by simp
qed

theorem bind_ignores_weight_and_bias_witness:
  "allocate_affine_config demo_layer scenario = Inr scenario_impl \<and>
   (\<exists>p'. allocate_affine_config demo_layer mismatched = Inr p' \<and>
      base_loop_size p' = 2 \<and> input_loop_size p' = 3 \<and> output_loop_size p' = 4 \<and> output_size p' = 8)"
proof -
  have m: "mismatched = scenario\<lparr>inputs := inputs mismatched\<rparr>"
    by (simp add: mismatched_def scenario_def)
  have "\<exists>p'. allocate_affine_config demo_layer (scenario\<lparr>inputs := inputs mismatched\<rparr>) = Inr p' \<and>
              base_loop_size p' = base_loop_size scenario_impl \<and>
              input_loop_size p' = input_loop_size scenario_impl \<and>
              output_loop_size p' = output_loop_size scenario_impl \<and>
              output_size p' = output_size scenario_impl"
    by (rule bind_ignores_weight_and_bias [OF scenario_bound])
       (simp_all add: mismatched_def scenario_def)
  then show ?thesis
    using m scenario_bound by (simp add: scenario_impl_def)
qed

text \<open>
  C5 as stated fails: bind constructs resolved state for a weight of 7 elements where
  \<open>input_loop_size * output_loop_size = 12\<close>, and a bias of 5 elements where
  \<open>output_loop_size = 4\<close>.
\<close>

theorem bind_accepts_mismatched_weight:
  "allocate_affine_config demo_layer mismatched = Inr mismatched_impl \<and>
   calc_shape_size (shape (weight mismatched_impl)) = 7 \<and>
   input_loop_size mismatched_impl * output_loop_size mismatched_impl = 12 \<and>
   bias mismatched_impl =
     Some (float_variable [5] 2, select_getter demo_layer (float_variable [5] 2)) \<and>
   calc_shape_size (shape (float_variable [5] 2)) = 5 \<and>
   output_loop_size mismatched_impl = 4"
proof -
  have "allocate_affine_config demo_layer mismatched = Inr mismatched_impl"
    by (simp add: allocate_affine_config_def mismatched_def mismatched_impl_def scenario_impl_def
        num_of_inputs_def num_of_outputs_def Let_def for_loop_unroll float_variable_def shape_of_def
        calc_shape_size_def c_mul_def c_int_def)
  then show ?thesis
    by (simp add: mismatched_impl_def scenario_impl_def float_variable_def mismatched_counts)
qed














end
